theory Spec2Isabelle
  imports Complex_Main
begin

section \<open>The galaxy population of ares (ares/populations/Galaxy.py)\<close>

text \<open>
  The module is Python 2 on numpy floats. Floats are modelled as reals. Every exception
  the module can raise is a value of \<open>error\<close>, and a function that can raise returns
  \<open>error + 'a\<close> (\<open>Inl\<close> the exception).
\<close>

datatype error =
    ValueError string
  | AttributeError string
  | TypeError string
  | IndexError
  | NameError string
  | ZeroDivisionError
  | FloatingPointError

text \<open>
  \<open>fdiv\<close> is the division of two Python floats. \<open>np_divide\<close> and \<open>np_log10\<close> are
  numpy's: where numpy goes on with inf or nan (and a RuntimeWarning) the model stops the run
  with \<open>FloatingPointError\<close>, as numpy itself does under \<open>seterr(all='raise')\<close>.
\<close>

definition fdiv :: "real \<Rightarrow> real \<Rightarrow> error + real" where
  "fdiv a b = (if b = 0 then Inl ZeroDivisionError else Inr (a / b))"

definition np_divide :: "real \<Rightarrow> real \<Rightarrow> error + real" where
  "np_divide a b = (if b = 0 then Inl FloatingPointError else Inr (a / b))"

definition np_log10 :: "real \<Rightarrow> error + real" where
  "np_log10 x = (if 0 < x then Inr (log 10 x) else Inl FloatingPointError)"

text \<open>Sequencing of calls that can raise, without and with the state of the object.\<close>

definition ebind :: "error + 'a \<Rightarrow> ('a \<Rightarrow> error + 'b) \<Rightarrow> error + 'b" where
  "ebind m f = (case m of Inl e \<Rightarrow> Inl e | Inr x \<Rightarrow> f x)"

definition sbind ::
  "(error + 'a) \<times> 's \<Rightarrow> ('a \<Rightarrow> 's \<Rightarrow> (error + 'b) \<times> 's) \<Rightarrow> (error + 'b) \<times> 's" where
  "sbind m f = (case m of (Inl e, s) \<Rightarrow> (Inl e, s) | (Inr x, s) \<Rightarrow> f x s)"

subsection \<open>Python and numpy sequences\<close>

text \<open>\<open>xs[i]\<close>: the index \<open>-k\<close> is the \<open>k\<close>-th item from the end.\<close>

definition py_index :: "'a list \<Rightarrow> int \<Rightarrow> error + 'a" where
  "py_index xs i =
     (if 0 \<le> i \<and> i < int (length xs) then Inr (xs ! nat i)
      else if i < 0 \<and> - int (length xs) \<le> i then Inr (xs ! nat (int (length xs) + i))
      else Inl IndexError)"

text \<open>\<open>xs[a:]\<close> and \<open>xs[a:b]\<close>: the bounds are wrapped, then clipped.\<close>

definition slice_bound :: "nat \<Rightarrow> int \<Rightarrow> nat" where
  "slice_bound n a = (if a < 0 then nat (max 0 (int n + a)) else min n (nat a))"

definition py_slice_from :: "'a list \<Rightarrow> int \<Rightarrow> 'a list" where
  "py_slice_from xs a = drop (slice_bound (length xs) a) xs"

definition py_slice :: "'a list \<Rightarrow> int \<Rightarrow> int \<Rightarrow> 'a list" where
  "py_slice xs a b =
     (let lo = slice_bound (length xs) a; hi = slice_bound (length xs) b
      in take (hi - lo) (drop lo xs))"

definition enumerate_py :: "'a list \<Rightarrow> (nat \<times> 'a) list" where
  "enumerate_py xs = zip [0..<length xs] xs"

text \<open>\<open>np.argmin\<close>: the first index of the least element; an empty array raises.\<close>

fun argmin_from :: "real list \<Rightarrow> nat \<Rightarrow> nat \<Rightarrow> real \<Rightarrow> nat" where
  "argmin_from [] k best v = best"
| "argmin_from (x # xs) k best v =
     (if x < v then argmin_from xs (Suc k) k x else argmin_from xs (Suc k) best v)"

definition np_argmin :: "real list \<Rightarrow> error + int" where
  "np_argmin xs =
     (case xs of
        [] \<Rightarrow> Inl (ValueError ''attempt to get argmin of an empty sequence'')
      | x # rest \<Rightarrow> Inr (int (argmin_from rest 1 0 x)))"

text \<open>The product of two arrays of one shape, element by element.\<close>

definition np_multiply :: "real list \<Rightarrow> real list \<Rightarrow> real list" where
  "np_multiply xs ys = map (\<lambda>(x, y). x * y) (zip xs ys)"

subsection \<open>Strings: \<open>s.replace(' ', '').lower()\<close>\<close>

definition lower_char :: "char \<Rightarrow> char" where
  "lower_char c =
     (case map_of (zip ''ABCDEFGHIJKLMNOPQRSTUVWXYZ'' ''abcdefghijklmnopqrstuvwxyz'') c of
        Some d \<Rightarrow> d
      | None \<Rightarrow> c)"

definition lower :: "string \<Rightarrow> string" where
  "lower s = map lower_char s"

definition replace_blank :: "string \<Rightarrow> string" where
  "replace_blank s = filter (\<lambda>c. c \<noteq> CHR '' '') s"

subsection \<open>The collaborators of the module\<close>

text \<open>
  The constants of ares.physics.Constants, the cosmology, the halo tables, the source, the
  magnitude system, the literature tables and the numerical routines of scipy, numpy and
  mpmath are not part of the module: they are parameters of the model. \<open>MF_ngtm z\<close> is
  \<open>halos.MF.ngtm\<close> after \<open>halos.MF.update(z=z)\<close>. A function of the halo tables or of the
  parameter file that the module calls on an array is applied element by element.
\<close>

record constants =
  s_per_yr :: real
  g_per_msun :: real
  erg_per_ev :: real
  rhodot_cgs :: real
  cm_per_mpc :: real

record cosmology =
  rho_m_z0 :: real
  rho_b_z0 :: real
  fbaryon :: real
  g_per_baryon :: real

record source =
  Spectrum :: "real \<Rightarrow> real"
  AveragePhotonEnergy :: "real \<Rightarrow> real \<Rightarrow> real"

record halo_tables =
  halos_z :: "real list"
  halos_M :: "real list"
  halos_logM :: "real list"
  halos_dndm :: "real list list"
  VirialMass :: "real \<Rightarrow> real \<Rightarrow> real \<Rightarrow> real"
  MF_ngtm :: "real \<Rightarrow> real list"

text \<open>The value of the objective of the abundance match: \<open>np.inf\<close> or a number.\<close>

datatype fval = PosInf | Val real

text \<open>
  \<open>quad f a b\<close> is \<open>quad(f, a, b)[0]\<close>; \<open>simps y x\<close> is \<open>simps(y, x=x)\<close>;
  \<open>fsolve f x0\<close> is \<open>fsolve(f, x0, factor=0.0001, maxfev=1000)[0]\<close>;
  \<open>curve_fit f y p0\<close> is \<open>curve_fit(f, x, y, p0=p0)[0]\<close> for the model \<open>f\<close> at the fixed
  \<open>x\<close>; \<open>interp1d_cubic x y\<close> is \<open>interp1d(x, y, kind='cubic')\<close>; \<open>gammainc\<close> is mpmath's.
\<close>

record numerics =
  quad :: "(real \<Rightarrow> real) \<Rightarrow> real \<Rightarrow> real \<Rightarrow> real"
  simps :: "real list \<Rightarrow> real list \<Rightarrow> error + real"
  np_interp :: "real \<Rightarrow> real list \<Rightarrow> real list \<Rightarrow> error + real"
  fsolve :: "(real \<Rightarrow> error + fval) \<Rightarrow> real \<Rightarrow> error + real"
  curve_fit :: "(real list \<Rightarrow> error + real list) \<Rightarrow> real list \<Rightarrow> real list \<Rightarrow> error + real list"
  interp1d_cubic :: "real list \<Rightarrow> real list \<Rightarrow> real \<Rightarrow> error + real"
  gammainc :: "real \<Rightarrow> real \<Rightarrow> real"

subsection \<open>The parameter file and the population\<close>

text \<open>A parameter that is a number or an array, one that is a number or a function, \<dots>\<close>

datatype pyval = Scalar real | Array "real list"

datatype fstar_par = FstarValue real | FstarFunction "real \<Rightarrow> real \<Rightarrow> real"

datatype Macc_par = MaccNone | MaccFunction "real \<Rightarrow> real \<Rightarrow> real" | MaccLiterature string

datatype sfrd_par = SfrdNone | SfrdFunction "real \<Rightarrow> real" | SfrdLiterature string

datatype Mmin_par = MminNone | MminValue pyval

record constraints_par =
  con_z :: "real list"
  con_M_star :: "real list"
  con_alpha :: "real list"
  con_phi_star :: "real list"

record constraint_set = constraints_par +
  con_L_star :: "real list"

record parameter_file =
  pop_model :: string
  pop_yield :: real
  pop_yield_units :: string
  pop_EminNorm :: real
  pop_EmaxNorm :: real
  pop_Emin :: real
  pop_Emax :: real
  pop_Emin_xray :: real
  pop_fesc :: real
  pop_fstar :: fstar_par
  pop_Macc :: Macc_par
  pop_Mmin :: Mmin_par
  pop_Tmin :: real
  mu :: real
  pop_sfrd :: sfrd_par
  pop_logM :: "real list"
  pop_constraints :: constraints_par

text \<open>
  The object: its configuration, which no method changes, and the attributes that the
  properties create on first access (\<open>None\<close>: \<open>hasattr\<close> is false). The attributes
  \<open>_Mmin\<close>, \<open>_Macc\<close>, \<open>_sfrd_\<close> and \<open>_sfrd_ham_\<close> hold a value that is computed from the
  configuration in one step that cannot raise, so reading them is modelled as computing
  them. The property \<open>src\<close> always returns an object, so \<open>self.src is not None\<close> is true.
\<close>

record population =
  pf :: parameter_file
  phys :: constants
  cosm :: cosmology
  halos :: halo_tables
  src :: source
  lib :: numerics
  mAB_to_L :: "real \<Rightarrow> real \<Rightarrow> real"
  read_lit_Macc :: "string \<Rightarrow> real \<Rightarrow> real \<Rightarrow> real"
  read_lit_SFRD :: "string \<Rightarrow> real \<Rightarrow> real"
  zform :: real
  dfcolldt :: "real \<Rightarrow> real"
  c_yield_per_sfr :: "real option"
  c_conversion_factors :: "(real \<times> real) \<rightharpoonup> real"
  c_constraints :: "constraint_set option"
  c_eta :: "real list option"
  c_fstar_ham_pts :: "real list list option"
  c_fstar_coeff :: "real list option"
  c_sfr_ham :: "real list list option"
  c_sfrd_ham_tab :: "real list option"

subsection \<open>normalize_sed\<close>

definition normalize_sed :: "population \<Rightarrow> error + real" where
  "normalize_sed pop =
     (let units = lower (replace_blank (pop_yield_units (pf pop))) in
      if units = ''erg/s/sfr'' then
        fdiv (pop_yield (pf pop) * s_per_yr (phys pop)) (g_per_msun (phys pop))
      else if units = ''erg/s/hz/sfr'' then
        Inr (pop_yield (pf pop))
      else
        (let E1 = pop_EminNorm (pf pop);
             E2 = pop_EmaxNorm (pf pop);
             erg_per_phot = AveragePhotonEnergy (src pop) E1 E2 * erg_per_ev (phys pop);
             energy_per_sfr = pop_yield (pf pop) * erg_per_phot
         in if units = ''photons/baryon'' then
              fdiv energy_per_sfr (g_per_baryon (cosm pop))
            else if units = ''photons/msun'' then
              fdiv energy_per_sfr (g_per_msun (phys pop))
            else if units = ''photons/s/sfr'' then
              (case fdiv (s_per_yr (phys pop)) (g_per_msun (phys pop)) of
                 Inl e \<Rightarrow> Inl e
               | Inr q \<Rightarrow> Inr (energy_per_sfr * q))
            else Inl (ValueError (''Unrecognized yield units: '' @ units))))"

subsection \<open>Simple properties\<close>

definition yield_per_sfr :: "population \<Rightarrow> (error + real) \<times> population" where
  "yield_per_sfr pop =
     (case c_yield_per_sfr pop of
        Some y \<Rightarrow> (Inr y, pop)
      | None \<Rightarrow>
          (case normalize_sed pop of
             Inl e \<Rightarrow> (Inl e, pop)
           | Inr y \<Rightarrow> (Inr y, pop\<lparr>c_yield_per_sfr := Some y\<rparr>)))"

definition is_fcoll_model :: "population \<Rightarrow> bool" where
  "is_fcoll_model pop = (lower (pop_model (pf pop)) = ''fcoll'')"

definition is_ham_model :: "population \<Rightarrow> bool" where
  "is_ham_model pop = (lower (pop_model (pf pop)) = ''ham'')"

definition is_hod_model :: "population \<Rightarrow> bool" where
  "is_hod_model pop = (lower (pop_model (pf pop)) = ''hod'')"

definition is_user_model :: "population \<Rightarrow> bool" where
  "is_user_model pop = (lower (pop_model (pf pop)) = ''user'')"

definition is_user_fstar :: "population \<Rightarrow> bool" where
  "is_user_fstar pop =
     (case pop_fstar (pf pop) of FstarFunction f \<Rightarrow> True | FstarValue c \<Rightarrow> False)"

subsection \<open>constraints\<close>

text \<open>
  The property stores the copy of \<open>pop_constraints\<close> with an empty \<open>L_star\<close> in the
  attribute, then appends one luminosity per redshift: \<open>M_star[i]\<close> raises when \<open>M_star\<close>
  is shorter than \<open>z\<close>, and the attribute keeps what was appended so far.
\<close>

fun L_star_loop ::
  "(real \<Rightarrow> real \<Rightarrow> real) \<Rightarrow> real list \<Rightarrow> real list \<Rightarrow> real list \<Rightarrow> error option \<times> real list" where
  "L_star_loop f [] Ms acc = (None, acc)"
| "L_star_loop f (z # zs) [] acc = (Some IndexError, acc)"
| "L_star_loop f (z # zs) (M # Ms) acc = L_star_loop f zs Ms (acc @ [f M z])"

definition constraints :: "population \<Rightarrow> (error + constraint_set) \<times> population" where
  "constraints pop =
     (case c_constraints pop of
        Some c \<Rightarrow> (Inr c, pop)
      | None \<Rightarrow>
          (let p = pop_constraints (pf pop);
               redshifts = con_z p;
               (err, Ls) = L_star_loop (mAB_to_L pop) redshifts (con_M_star p) [];
               c = \<lparr>con_z = con_z p, con_M_star = con_M_star p, con_alpha = con_alpha p,
                    con_phi_star = con_phi_star p, con_L_star = Ls\<rparr>;
               pop' = pop\<lparr>c_constraints := Some c\<rparr>
           in case err of Some e \<Rightarrow> (Inl e, pop') | None \<Rightarrow> (Inr c, pop')))"

subsection \<open>Macc and Mmin\<close>

definition Macc :: "population \<Rightarrow> (real \<Rightarrow> real \<Rightarrow> real) option" where
  "Macc pop =
     (case pop_Macc (pf pop) of
        MaccNone \<Rightarrow> None
      | MaccFunction f \<Rightarrow> Some f
      | MaccLiterature name \<Rightarrow> Some (read_lit_Macc pop name))"

text \<open>\<open>self.Macc(z, M)\<close> for a mass and for an array of masses; calling \<open>None\<close> raises.\<close>

definition call_Macc :: "population \<Rightarrow> real \<Rightarrow> real \<Rightarrow> error + real" where
  "call_Macc pop z M =
     (case Macc pop of
        None \<Rightarrow> Inl (TypeError ''NoneType object is not callable'')
      | Some f \<Rightarrow> Inr (f z M))"

definition call_Macc_array :: "population \<Rightarrow> real \<Rightarrow> real list \<Rightarrow> error + real list" where
  "call_Macc_array pop z Ms =
     (case Macc pop of
        None \<Rightarrow> Inl (TypeError ''NoneType object is not callable'')
      | Some f \<Rightarrow> Inr (map (f z) Ms))"

definition Mmin :: "population \<Rightarrow> pyval" where
  "Mmin pop =
     (case pop_Mmin (pf pop) of
        MminValue v \<Rightarrow> v
      | MminNone \<Rightarrow>
          Array (map (\<lambda>z. VirialMass (halos pop) (pop_Tmin (pf pop)) z (mu (pf pop)))
                     (halos_z (halos pop))))"

text \<open>\<open>v[i]\<close>: a float has no items.\<close>

definition getitem :: "pyval \<Rightarrow> nat \<Rightarrow> error + real" where
  "getitem v i =
     (case v of
        Scalar x \<Rightarrow> Inl (TypeError ''float object has no attribute __getitem__'')
      | Array xs \<Rightarrow> py_index xs (int i))"

subsection \<open>eta\<close>

text \<open>One turn of the loop of \<open>eta\<close>: the value stored in \<open>_eta[i]\<close>.\<close>

definition eta_body :: "population \<Rightarrow> nat \<Rightarrow> real \<Rightarrow> error + real" where
  "eta_body pop i z =
     ebind (getitem (Mmin pop) i) (\<lambda>Mmin_i.
     ebind (np_log10 Mmin_i) (\<lambda>logMmin.
     ebind (fdiv (s_per_yr (phys pop)) (g_per_msun (phys pop))) (\<lambda>q.
     let rhs = rho_m_z0 (cosm pop) * dfcolldt pop z;
         rhs = rhs * (q * cm_per_mpc (phys pop) ^ 3);
         M = halos_M (halos pop);
         logM = halos_logM (halos pop);
         log10 = ln 10
     in
     ebind (call_Macc_array pop z M) (\<lambda>Macc.
     ebind (np_argmin (map (\<lambda>m. \<bar>Mmin_i - m\<bar>) M)) (\<lambda>j1.
     ebind (py_index Macc j1) (\<lambda>Macc_j1.
     ebind (py_index M j1) (\<lambda>M_j1.
     let j1 = (if Macc_j1 > M_j1 then j1 - 1 else j1);
         j2 = j1 + 1
     in
     ebind (py_index (halos_dndm (halos pop)) (int i)) (\<lambda>dndm_i.
     ebind (simps (lib pop) (np_multiply (py_slice_from Macc j2) (py_slice_from dndm_i j2))
                  (py_slice_from logM j2)) (\<lambda>integral.
     let lhs = integral * log10 in
     ebind (py_index Macc j1) (\<lambda>Macc_j1.
     ebind (py_index dndm_i j1) (\<lambda>dndm_j1.
     ebind (py_index Macc j2) (\<lambda>Macc_j2.
     ebind (py_index dndm_i j2) (\<lambda>dndm_j2.
     ebind (np_interp (lib pop) Mmin_i (py_slice M j1 (j2 + 1))
                      [Macc_j1 * dndm_j1, Macc_j2 * dndm_j2]) (\<lambda>Macc1.
     let Macc2 = Macc_j2 in
     ebind (py_index logM j2) (\<lambda>logM_j2.
     let extra = 0.5 * (logM_j2 - logMmin) * (Macc1 + Macc2) * log10;
         lhs = lhs + extra
     in np_divide rhs lhs)))))))))))))))"

text \<open>
  The array \<open>_eta\<close> is created with zeros and stored in the attribute before the loop,
  which writes into it in place. Nothing reads the attribute during the loop, so the loop
  of the model carries the array, and \<open>eta\<close> stores it when the loop ends or raises.
\<close>

fun eta_loop :: "population \<Rightarrow> (nat \<times> real) list \<Rightarrow> real list \<Rightarrow> error option \<times> real list" where
  "eta_loop pop [] arr = (None, arr)"
| "eta_loop pop ((i, z) # rest) arr =
     (case eta_body pop i z of
        Inl e \<Rightarrow> (Some e, arr)
      | Inr v \<Rightarrow> eta_loop pop rest (arr[i := v]))"

definition eta :: "population \<Rightarrow> (error + real list) \<times> population" where
  "eta pop =
     (if \<not> is_ham_model pop then (Inl (AttributeError ''eta is a HAM thing!''), pop)
      else
        (case c_eta pop of
           Some arr \<Rightarrow> (Inr arr, pop)
         | None \<Rightarrow>
             (let zs = halos_z (halos pop);
                  (err, arr) = eta_loop pop (enumerate_py zs) (replicate (length zs) 0);
                  pop' = pop\<lparr>c_eta := Some arr\<rparr>
              in case err of Some e \<Rightarrow> (Inl e, pop') | None \<Rightarrow> (Inr arr, pop'))))"

subsection \<open>The abundance match: \<open>_fstar_ham\<close>\<close>

definition Marr :: "population \<Rightarrow> real list" where
  "Marr pop = map (\<lambda>x. 10 powr x) (pop_logM (pf pop))"

definition schecter_integral_inf :: "population \<Rightarrow> real \<Rightarrow> real \<Rightarrow> real" where
  "schecter_integral_inf pop xmin alpha = gammainc (lib pop) (alpha + 1) xmin"

text \<open>\<open>LofM\<close> and \<open>to_min\<close>, the closures of one grid point, with what they capture.\<close>

definition LofM :: "real \<Rightarrow> real \<Rightarrow> real \<Rightarrow> real \<Rightarrow> error + real" where
  "LofM Macc_zM eta_i kappa_UV fstar = np_divide (fstar * Macc_zM * eta_i) kappa_UV"

definition to_min ::
  "population \<Rightarrow> real \<Rightarrow> real \<Rightarrow> real \<Rightarrow> real \<Rightarrow> real \<Rightarrow> real \<Rightarrow> real \<Rightarrow> real \<Rightarrow> error + fval" where
  "to_min pop Macc_zM eta_i kappa_UV L_star alpha phi_star int_nMh fstar =
     ebind (LofM Macc_zM eta_i kappa_UV fstar) (\<lambda>Lmin.
     if Lmin < 0 then Inr PosInf
     else
       ebind (np_divide Lmin L_star) (\<lambda>xmin.
       let int_phiL = schecter_integral_inf pop xmin alpha;
           int_phiL = int_phiL * phi_star
       in Inr (Val \<bar>int_phiL - int_nMh\<bar>)))"

text \<open>
  One grid point \<open>(i, j)\<close>: \<open>None\<close> when the mass is below \<open>Mmin[i]\<close> (\<open>continue\<close>),
  else the efficiency that \<open>fsolve\<close> returns from the seed 0.001.
\<close>

definition ham_point ::
  "population \<Rightarrow> real \<Rightarrow> nat \<Rightarrow> real \<Rightarrow> real \<Rightarrow> real \<Rightarrow> real \<Rightarrow> real
     \<Rightarrow> (error + real option) \<times> population" where
  "ham_point pop kappa_UV i z alpha L_star phi_star M =
     (case getitem (Mmin pop) i of
        Inl e \<Rightarrow> (Inl e, pop)
      | Inr Mmin_i \<Rightarrow>
          if M < Mmin_i then (Inr None, pop)
          else
            (case call_Macc pop z M of
               Inl e \<Rightarrow> (Inl e, pop)
             | Inr Macc_zM \<Rightarrow>
                 sbind (eta pop) (\<lambda>etas pop1.
                   (ebind (py_index etas (int i)) (\<lambda>eta_i.
                    ebind (np_interp (lib pop1) M (halos_M (halos pop1)) (MF_ngtm (halos pop1) z))
                      (\<lambda>int_nMh.
                    ebind (fsolve (lib pop1)
                             (to_min pop1 Macc_zM eta_i kappa_UV L_star alpha phi_star int_nMh)
                             0.001) (\<lambda>fast.
                    Inr (Some fast)))), pop1))))"

text \<open>\<open>pts[i, j] = v\<close> on the two-dimensional array.\<close>

definition set_pt :: "real list list \<Rightarrow> nat \<Rightarrow> nat \<Rightarrow> real \<Rightarrow> real list list" where
  "set_pt pts i j v = pts[i := (pts ! i)[j := v]]"

text \<open>
  As for \<open>_eta\<close>, the array \<open>_fstar_ham_pts\<close> is stored in the attribute before the loops,
  which write into it in place and do not read the attribute: the loops of the model carry
  the array, and \<open>fstar_ham\<close> stores it when they end or raise.
\<close>

fun ham_mass_loop ::
  "population \<Rightarrow> real \<Rightarrow> nat \<Rightarrow> real \<Rightarrow> real \<Rightarrow> real \<Rightarrow> real \<Rightarrow> (nat \<times> real) list
     \<Rightarrow> real list list \<Rightarrow> error option \<times> real list list \<times> population" where
  "ham_mass_loop pop kappa_UV i z alpha L_star phi_star [] pts = (None, pts, pop)"
| "ham_mass_loop pop kappa_UV i z alpha L_star phi_star ((j, M) # rest) pts =
     (case ham_point pop kappa_UV i z alpha L_star phi_star M of
        (Inl e, pop1) \<Rightarrow> (Some e, pts, pop1)
      | (Inr None, pop1) \<Rightarrow>
          ham_mass_loop pop1 kappa_UV i z alpha L_star phi_star rest pts
      | (Inr (Some fast), pop1) \<Rightarrow>
          ham_mass_loop pop1 kappa_UV i z alpha L_star phi_star rest (set_pt pts i j fast))"

fun ham_z_loop ::
  "population \<Rightarrow> real \<Rightarrow> constraint_set \<Rightarrow> real list \<Rightarrow> (nat \<times> real) list
     \<Rightarrow> real list list \<Rightarrow> error option \<times> real list list \<times> population" where
  "ham_z_loop pop kappa_UV con Ms [] pts = (None, pts, pop)"
| "ham_z_loop pop kappa_UV con Ms ((i, z) # rest) pts =
     (case py_index (con_alpha con) (int i) of
        Inl e \<Rightarrow> (Some e, pts, pop)
      | Inr alpha \<Rightarrow>
     (case py_index (con_L_star con) (int i) of
        Inl e \<Rightarrow> (Some e, pts, pop)
      | Inr L_star \<Rightarrow>
     (case py_index (con_phi_star con) (int i) of
        Inl e \<Rightarrow> (Some e, pts, pop)
      | Inr phi_star \<Rightarrow>
     (case ham_mass_loop pop kappa_UV i z alpha L_star phi_star (enumerate_py Ms) pts of
        (Some e, pts1, pop1) \<Rightarrow> (Some e, pts1, pop1)
      | (None, pts1, pop1) \<Rightarrow> ham_z_loop pop1 kappa_UV con Ms rest pts1))))"

definition fstar_ham :: "population \<Rightarrow> (error + real list list) \<times> population" where
  "fstar_ham pop =
     (case c_fstar_ham_pts pop of
        Some pts \<Rightarrow> (Inr pts, pop)
      | None \<Rightarrow>
          sbind (yield_per_sfr pop) (\<lambda>y pop1.
            (case fdiv 1 y of
               Inl e \<Rightarrow> (Inl e, pop1)
             | Inr kappa_UV \<Rightarrow>
                 (let Ms = Marr pop1 in
                  sbind (constraints pop1) (\<lambda>con pop2.
                    (let Nz = length (con_z con);
                         Nm = length Ms;
                         (err, pts, pop3) =
                            ham_z_loop pop2 kappa_UV con Ms (enumerate_py (con_z con))
                              (replicate Nz (replicate Nm 0));
                         pop4 = pop3\<lparr>c_fstar_ham_pts := Some pts\<rparr>
                     in case err of Some e \<Rightarrow> (Inl e, pop4) | None \<Rightarrow> (Inr pts, pop4)))))))"

subsection \<open>The polynomial fit and \<open>fstar\<close>\<close>

fun sequence_e :: "(error + 'a) list \<Rightarrow> error + 'a list" where
  "sequence_e [] = Inr []"
| "sequence_e (x # xs) = ebind x (\<lambda>v. ebind (sequence_e xs) (\<lambda>vs. Inr (v # vs)))"

definition fstar_poly :: "real \<Rightarrow> real \<Rightarrow> real list \<Rightarrow> error + real" where
  "fstar_poly z M coeff =
     (case coeff of
        c0 # c1 # c2 # c3 # c4 # c5 # cs \<Rightarrow>
          ebind (np_log10 M) (\<lambda>lg.
          let logf = c0 + c1 * lg
                + c2 * ((1 + z) / 8)
                + c3 * ((1 + z) / 8) * lg
                + c4 * lg ^ 2 + c5 * lg ^ 3
          in Inr (10 powr logf))
      | _ \<Rightarrow> Inl IndexError)"

definition fstar_poly_array :: "real \<Rightarrow> real list \<Rightarrow> real list \<Rightarrow> error + real list" where
  "fstar_poly_array z Ms coeff = sequence_e (map (\<lambda>M. fstar_poly z M coeff) Ms)"

text \<open>
  The model function of the fit: \<open>_fstar_poly\<close> on \<open>np.meshgrid(Marr, z)\<close>, flattened
  row by row (one row per redshift).
\<close>

definition fstar_poly_grid :: "real list \<Rightarrow> real list \<Rightarrow> real list \<Rightarrow> error + real list" where
  "fstar_poly_grid Ms zs coeff =
     ebind (sequence_e (map (\<lambda>z. fstar_poly_array z Ms coeff) zs)) (\<lambda>rows. Inr (concat rows))"

definition guess :: "real list" where
  "guess = [-158.17, 34.7, 9.91, -0.913, -2.542, 0.062]"

definition fstar_coeff :: "population \<Rightarrow> (error + real list) \<times> population" where
  "fstar_coeff pop =
     (case c_fstar_coeff pop of
        Some coeff \<Rightarrow> (Inr coeff, pop)
      | None \<Rightarrow>
          (let Ms = Marr pop in
           sbind (constraints pop) (\<lambda>con pop1.
           sbind (fstar_ham pop1) (\<lambda>pts pop2.
             (let y = concat pts in
              case curve_fit (lib pop2) (fstar_poly_grid Ms (con_z con)) y guess of
                Inl e \<Rightarrow> (Inl e, pop2)
              | Inr coeff \<Rightarrow> (Inr coeff, pop2\<lparr>c_fstar_coeff := Some coeff\<rparr>))))))"

text \<open>\<open>fstar(z, M)\<close> for a mass, and for an array of masses (a constant stays a scalar).\<close>

definition fstar :: "population \<Rightarrow> real \<Rightarrow> real \<Rightarrow> (error + real) \<times> population" where
  "fstar pop z M =
     (case pop_fstar (pf pop) of
        FstarFunction f \<Rightarrow> (Inr (f z M), pop)
      | FstarValue c \<Rightarrow>
          if \<not> is_ham_model pop then (Inr c, pop)
          else sbind (fstar_coeff pop) (\<lambda>coeff pop1. (fstar_poly z M coeff, pop1)))"

definition fstar_array :: "population \<Rightarrow> real \<Rightarrow> real list \<Rightarrow> (error + pyval) \<times> population" where
  "fstar_array pop z Ms =
     (case pop_fstar (pf pop) of
        FstarFunction f \<Rightarrow> (Inr (Array (map (f z) Ms)), pop)
      | FstarValue c \<Rightarrow>
          if \<not> is_ham_model pop then (Inr (Scalar c), pop)
          else sbind (fstar_coeff pop) (\<lambda>coeff pop1.
                 (ebind (fstar_poly_array z Ms coeff) (\<lambda>fs. Inr (Array fs)), pop1)))"

subsection \<open>The star-formation rate of the abundance match\<close>

definition np_multiply_val :: "real list \<Rightarrow> pyval \<Rightarrow> real list" where
  "np_multiply_val xs v =
     (case v of Scalar c \<Rightarrow> map (\<lambda>x. x * c) xs | Array ys \<Rightarrow> np_multiply xs ys)"

fun sfr_ham_loop ::
  "population \<Rightarrow> (nat \<times> real) list \<Rightarrow> real list list
     \<Rightarrow> error option \<times> real list list \<times> population" where
  "sfr_ham_loop pop [] tab = (None, tab, pop)"
| "sfr_ham_loop pop ((i, z) # rest) tab =
     (case call_Macc_array pop z (halos_M (halos pop)) of
        Inl e \<Rightarrow> (Some e, tab, pop)
      | Inr Macc_z \<Rightarrow>
          (case fstar_array pop z (halos_M (halos pop)) of
             (Inl e, pop1) \<Rightarrow> (Some e, tab, pop1)
           | (Inr fs, pop1) \<Rightarrow>
               sfr_ham_loop pop1 rest
                 (tab[i := np_multiply_val (map (\<lambda>a. fbaryon (cosm pop) * a) Macc_z) fs])))"

definition sfr_ham :: "population \<Rightarrow> (error + real list list) \<times> population" where
  "sfr_ham pop =
     (case c_sfr_ham pop of
        Some tab \<Rightarrow> (Inr tab, pop)
      | None \<Rightarrow>
          (let Nz = length (halos_z (halos pop));
               Nm = length (halos_M (halos pop));
               (err, tab, pop1) =
                  sfr_ham_loop pop (enumerate_py (halos_z (halos pop)))
                    (replicate Nz (replicate Nm 0));
               pop2 = pop1\<lparr>c_sfr_ham := Some tab\<rparr>
           in case err of Some e \<Rightarrow> (Inl e, pop2) | None \<Rightarrow> (Inr tab, pop2)))"

text \<open>
  \<open>Mmin\<close> of \<open>_sfrd_ham_tab\<close>: the virial mass at each redshift of the halo table, or
  \<open>pop_Mmin * np.ones(Nz)\<close>, which numpy broadcasts.
\<close>

definition Mmin_of_z :: "population \<Rightarrow> error + real list" where
  "Mmin_of_z pop =
     (let Nz = length (halos_z (halos pop)) in
      case pop_Mmin (pf pop) of
        MminNone \<Rightarrow>
          Inr (map (\<lambda>z. VirialMass (halos pop) (pop_Tmin (pf pop)) z (mu (pf pop)))
                   (halos_z (halos pop)))
      | MminValue (Scalar v) \<Rightarrow> Inr (replicate Nz v)
      | MminValue (Array xs) \<Rightarrow>
          if length xs = Nz then Inr xs
          else if length xs = 1 then Inr (replicate Nz (hd xs))
          else if Nz = 1 then Inr xs
          else Inl (ValueError ''operands could not be broadcast together''))"

fun sfrd_ham_tab_loop ::
  "population \<Rightarrow> real list \<Rightarrow> (nat \<times> real) list \<Rightarrow> real list
     \<Rightarrow> error option \<times> real list \<times> population" where
  "sfrd_ham_tab_loop pop Mmins [] tab = (None, tab, pop)"
| "sfrd_ham_tab_loop pop Mmins ((i, z) # rest) tab =
     (case sfr_ham pop of
        (Inl e, pop1) \<Rightarrow> (Some e, tab, pop1)
      | (Inr sfr, pop1) \<Rightarrow>
          (case
             ebind (py_index sfr (int i)) (\<lambda>sfr_i.
             ebind (py_index (halos_dndm (halos pop1)) (int i)) (\<lambda>dndm_i.
             let integrand = np_multiply sfr_i dndm_i in
             ebind (py_index Mmins (int i)) (\<lambda>Mmin_i.
             ebind (np_argmin (map (\<lambda>m. \<bar>Mmin_i - m\<bar>) (halos_M (halos pop1)))) (\<lambda>k.
             ebind (simps (lib pop1) (py_slice_from integrand k)
                          (py_slice_from (halos_logM (halos pop1)) k)) (\<lambda>integral.
             Inr (integral * ln 10))))))
           of
             Inl e \<Rightarrow> (Some e, tab, pop1)
           | Inr v \<Rightarrow> sfrd_ham_tab_loop pop1 Mmins rest (tab[i := v])))"

definition sfrd_ham_tab :: "population \<Rightarrow> (error + real list) \<times> population" where
  "sfrd_ham_tab pop =
     (case c_sfrd_ham_tab pop of
        Some tab \<Rightarrow> (Inr tab, pop)
      | None \<Rightarrow>
          (let Nz = length (halos_z (halos pop)) in
           case Mmin_of_z pop of
             Inl e \<Rightarrow> (Inl e, pop\<lparr>c_sfrd_ham_tab := Some (replicate Nz 0)\<rparr>)
           | Inr Mmins \<Rightarrow>
               (let (err, tab, pop1) =
                      sfrd_ham_tab_loop pop Mmins (enumerate_py (halos_z (halos pop)))
                        (replicate Nz 0);
                    pop2 = pop1\<lparr>c_sfrd_ham_tab := Some tab\<rparr>
                in case err of Some e \<Rightarrow> (Inl e, pop2) | None \<Rightarrow> (Inr tab, pop2))))"

text \<open>\<open>self._sfrd_ham(z)\<close>: the cubic spline through the table, at \<open>z\<close>.\<close>

definition sfrd_ham :: "population \<Rightarrow> real \<Rightarrow> (error + real) \<times> population" where
  "sfrd_ham pop z =
     sbind (sfrd_ham_tab pop) (\<lambda>tab pop1.
       (interp1d_cubic (lib pop1) (halos_z (halos pop1)) tab z, pop1))"

subsection \<open>\<open>_convert_band\<close>\<close>

text \<open>The two warnings that the method prints have no effect on what it returns.\<close>

definition convert_band ::
  "population \<Rightarrow> real option \<Rightarrow> real option \<Rightarrow> real \<times> population" where
  "convert_band pop Emin Emax =
     (let different_band = False;
          (different_band, Emin) =
             (case Emin of
                Some e \<Rightarrow> (True, e)
              | None \<Rightarrow> (different_band, pop_Emin (pf pop)));
          (different_band, Emax) =
             (case Emax of
                Some e \<Rightarrow> (True, e)
              | None \<Rightarrow> (different_band, pop_Emax (pf pop)))
      in if different_band then
           (case c_conversion_factors pop (Emin, Emax) of
              Some factor \<Rightarrow> (factor, pop)
            | None \<Rightarrow>
                (let factor = quad (lib pop) (Spectrum (src pop)) Emin Emax
                 in (factor,
                     pop\<lparr>c_conversion_factors :=
                           (c_conversion_factors pop)((Emin, Emax) \<mapsto> factor)\<rparr>)))
         else (1, pop))"

subsection \<open>SFRD\<close>

definition sfrd_prop :: "population \<Rightarrow> (real \<Rightarrow> real) option" where
  "sfrd_prop pop =
     (case pop_sfrd (pf pop) of
        SfrdNone \<Rightarrow> None
      | SfrdFunction f \<Rightarrow> Some f
      | SfrdLiterature name \<Rightarrow> Some (read_lit_SFRD pop name))"

text \<open>
  In the fcoll branch a negative rate reaches \<open>negative_SFRD(...)\<close>, a name that the module
  neither defines nor imports (nor \<open>sys\<close>, for the \<open>sys.exit(1)\<close> that follows): the call
  raises NameError. \<open>raise NotImplemented(...)\<close> calls the constant \<open>NotImplemented\<close>, which
  raises TypeError.
\<close>

definition SFRD :: "population \<Rightarrow> real \<Rightarrow> (error + real) \<times> population" where
  "SFRD pop z =
     (if z > zform pop then (Inr 0, pop)
      else
        (case sfrd_prop pop of
           Some f \<Rightarrow> (fdiv (f z) (rhodot_cgs (phys pop)), pop)
         | None \<Rightarrow>
             if is_fcoll_model pop then
               (case pop_fstar (pf pop) of
                  FstarFunction f \<Rightarrow>
                    (Inl (TypeError ''unsupported operand type(s) for *: function and float''), pop)
                | FstarValue c \<Rightarrow>
                    (let sfrd = c * rho_b_z0 (cosm pop) * dfcolldt pop z
                     in if sfrd < 0 then
                          (Inl (NameError ''global name negative_SFRD is not defined''), pop)
                        else (Inr sfrd, pop)))
             else if is_ham_model pop then
               sbind (sfrd_ham pop z) (\<lambda>v pop1.
                 (np_divide (v * g_per_msun (phys pop1)) (s_per_yr (phys pop1)), pop1))
             else (Inl (TypeError ''NotImplementedType object is not callable''), pop)))"

subsection \<open>Emissivity\<close>

text \<open>
  Python 2 orders \<open>None\<close> below every number: \<open>None > 13.6\<close> is false and
  \<open>None < x\<close> is true.
\<close>

definition py2_gt :: "real option \<Rightarrow> real \<Rightarrow> bool" where
  "py2_gt a b = (case a of None \<Rightarrow> False | Some x \<Rightarrow> x > b)"

definition py2_lt :: "real option \<Rightarrow> real \<Rightarrow> bool" where
  "py2_lt a b = (case a of None \<Rightarrow> True | Some x \<Rightarrow> x < b)"

definition Emissivity ::
  "population \<Rightarrow> real \<Rightarrow> real option \<Rightarrow> real option \<Rightarrow> real option
     \<Rightarrow> (error + real) \<times> population" where
  "Emissivity pop z E Emin Emax =
     (if is_fcoll_model pop \<or> (case pop_sfrd (pf pop) of SfrdNone \<Rightarrow> False | _ \<Rightarrow> True) then
        sbind (SFRD pop z) (\<lambda>sfrd pop1.
        sbind (yield_per_sfr pop1) (\<lambda>y pop2.
          (let rhoL = sfrd * y;
               (factor, pop3) = convert_band pop2 Emin Emax;
               rhoL = rhoL * factor;
               rhoL = (if py2_gt Emax 13.6 \<and> py2_lt Emin (pop_Emin_xray (pf pop3))
                       then rhoL * pop_fesc (pf pop3) else rhoL)
           in case E of
                Some e \<Rightarrow> (Inr (rhoL * Spectrum (src pop3) e), pop3)
              | None \<Rightarrow> (Inr rhoL, pop3))))
      else (Inl (TypeError ''NotImplementedType object is not callable''), pop))"

subsection \<open>The claims' own words\<close>



text \<open>
  What the loop of \<open>_fstar_ham\<close> computes at an eligible grid point, as a function of
  the array \<open>eta\<close>: the calls of \<open>ham_point\<close> after the test of the mass, in its order.
\<close>

definition ham_value ::
  "population \<Rightarrow> real list \<Rightarrow> real \<Rightarrow> nat \<Rightarrow> real \<Rightarrow> real \<Rightarrow> real \<Rightarrow> real \<Rightarrow> real \<Rightarrow> error + real" where
  "ham_value pop etas kappa_UV i z alpha L_star phi_star M =
     ebind (call_Macc pop z M) (\<lambda>Macc_zM.
     ebind (py_index etas (int i)) (\<lambda>eta_i.
     ebind (np_interp (lib pop) M (halos_M (halos pop)) (MF_ngtm (halos pop) z)) (\<lambda>int_nMh.
     fsolve (lib pop) (to_min pop Macc_zM eta_i kappa_UV L_star alpha phi_star int_nMh) 0.001)))"

subsection \<open>Two small populations\<close>

text \<open>
  Concrete collaborators, for running the model: a flat spectrum of unit integral over the
  normalisation band (15, 25) eV; a halo table of one redshift and three masses; the trapezoid
  rule (which Simpson's rule is on one or two samples), linear interpolation with the end
  values outside the table, the midpoint rule for \<open>quad\<close>, a root-finder that returns its
  starting point, and \<open>exp (- x)\<close>, the upper incomplete gamma function at 1.
\<close>

fun trapezoid :: "real list \<Rightarrow> real list \<Rightarrow> real" where
  "trapezoid (y0 # y1 # ys) (x0 # x1 # xs) =
     (x1 - x0) * (y0 + y1) / 2 + trapezoid (y1 # ys) (x1 # xs)"
| "trapezoid ys xs = 0"

fun interp_linear :: "real \<Rightarrow> (real \<times> real) list \<Rightarrow> real" where
  "interp_linear x [] = 0"
| "interp_linear x [(a, fa)] = fa"
| "interp_linear x ((a, fa) # (b, fb) # rest) =
     (if x \<le> a then fa
      else if x < b then fa + (x - a) * (fb - fa) / (b - a)
      else interp_linear x ((b, fb) # rest))"

definition ex_phys :: constants where
  "ex_phys = \<lparr>s_per_yr = 2, g_per_msun = 2, erg_per_ev = 1, rhodot_cgs = 1, cm_per_mpc = 1\<rparr>"

definition ex_cosm :: cosmology where
  "ex_cosm = \<lparr>rho_m_z0 = 1, rho_b_z0 = 1, fbaryon = 1, g_per_baryon = 1\<rparr>"

definition ex_src :: source where
  "ex_src = \<lparr>Spectrum = (\<lambda>E. 1 / 10), AveragePhotonEnergy = (\<lambda>a b. (a + b) / 2)\<rparr>"

definition ex_halos :: halo_tables where
  "ex_halos =
     \<lparr>halos_z = [6], halos_M = [1, 10, 100], halos_logM = [0, 1, 2],
      halos_dndm = [[1, 1, 1]], VirialMass = (\<lambda>T z m. 10), MF_ngtm = (\<lambda>z. [2, 2, 2])\<rparr>"

definition ex_lib :: numerics where
  "ex_lib =
     \<lparr>quad = (\<lambda>f a b. (b - a) * f ((a + b) / 2)),
      simps = (\<lambda>y x. Inr (trapezoid y x)),
      np_interp = (\<lambda>x xp fp. Inr (interp_linear x (zip xp fp))),
      fsolve = (\<lambda>f x0. Inr x0),
      curve_fit = (\<lambda>f y p0. Inr p0),
      interp1d_cubic = (\<lambda>xs ys x. Inr (interp_linear x (zip xs ys))),
      gammainc = (\<lambda>a x. exp (- x))\<rparr>"

definition ex_pf :: parameter_file where
  "ex_pf =
     \<lparr>pop_model = ''fcoll'', pop_yield = 1, pop_yield_units = ''Erg / s / SFR'',
      pop_EminNorm = 15, pop_EmaxNorm = 25, pop_Emin = 10, pop_Emax = 30,
      pop_Emin_xray = 20, pop_fesc = 1 / 2, pop_fstar = FstarValue (1 / 10),
      pop_Macc = MaccFunction (\<lambda>z M. 1), pop_Mmin = MminNone, pop_Tmin = 10000,
      mu = 1, pop_sfrd = SfrdNone, pop_logM = [0, 1],
      pop_constraints = \<lparr>con_z = [6], con_M_star = [-20], con_alpha = [0], con_phi_star = [1]\<rparr>\<rparr>"

definition fcoll_pop :: population where
  "fcoll_pop =
     \<lparr>pf = ex_pf, phys = ex_phys, cosm = ex_cosm, halos = ex_halos, src = ex_src, lib = ex_lib,
      mAB_to_L = (\<lambda>mag z. 1), read_lit_Macc = (\<lambda>name z M. 1), read_lit_SFRD = (\<lambda>name z. 1),
      zform = 50, dfcolldt = (\<lambda>z. 1),
      c_yield_per_sfr = None, c_conversion_factors = Map.empty, c_constraints = None,
      c_eta = None, c_fstar_ham_pts = None, c_fstar_coeff = None, c_sfr_ham = None,
      c_sfrd_ham_tab = None\<rparr>"

definition ham_pop :: population where
  "ham_pop = fcoll_pop\<lparr>pf := ex_pf\<lparr>pop_model := ''ham''\<rparr>\<rparr>"

text \<open>An fcoll population whose collapsed fraction decreases at every redshift.\<close>

definition fcoll_pop_neg :: population where
  "fcoll_pop_neg = fcoll_pop\<lparr>dfcolldt := (\<lambda>z. - 1)\<rparr>"

text \<open>The same, with the star-formation history given as a function.\<close>

definition fcoll_pop_user :: population where
  "fcoll_pop_user = fcoll_pop_neg\<lparr>pf := ex_pf\<lparr>pop_sfrd := SfrdFunction (\<lambda>z. - 1)\<rparr>\<rparr>"

text \<open>The abundance-matching population after its grid has been built.\<close>

definition ex_con :: constraint_set where
  "ex_con = \<lparr>con_z = [6], con_M_star = [-20], con_alpha = [0], con_phi_star = [1],
             con_L_star = [1]\<rparr>"

definition ham_pop_built :: population where
  "ham_pop_built =
     ham_pop\<lparr>c_yield_per_sfr := Some 1, c_constraints := Some ex_con,
             c_eta := Some [1 / ln 10], c_fstar_ham_pts := Some [[0, 1 / 1000]]\<rparr>"

section \<open>Properties\<close>

subsection \<open>Evaluation rules\<close>

lemma ebind_simps [simp]: "ebind (Inl e) f = Inl e" "ebind (Inr x) f = f x"
  by (simp_all add: ebind_def)

lemma ebind_weak_cong [cong]: "m = m' \<Longrightarrow> ebind m f = ebind m' f"
  by simp

lemma sbind_simps [simp]: "sbind (Inl e, s) f = (Inl e, s)" "sbind (Inr x, s) f = f x s"
  by (simp_all add: sbind_def)

lemma sbind_weak_cong [cong]: "m = m' \<Longrightarrow> sbind m f = sbind m' f"
  by simp

text \<open>The fields of the example populations.\<close>

lemmas string_defs = lower_def lower_char_def replace_blank_def

lemma ex_pf_simps [simp]:
  "pop_model ex_pf = ''fcoll''" "pop_yield ex_pf = 1" "pop_yield_units ex_pf = ''Erg / s / SFR''"
  "pop_EminNorm ex_pf = 15" "pop_EmaxNorm ex_pf = 25" "pop_Emin ex_pf = 10" "pop_Emax ex_pf = 30"
  "pop_Emin_xray ex_pf = 20" "pop_fesc ex_pf = 1 / 2" "pop_fstar ex_pf = FstarValue (1 / 10)"
  "pop_Macc ex_pf = MaccFunction (\<lambda>z M. 1)" "pop_Mmin ex_pf = MminNone" "pop_Tmin ex_pf = 10000"
  "mu ex_pf = 1" "pop_sfrd ex_pf = SfrdNone" "pop_logM ex_pf = [0, 1]"
  "pop_constraints ex_pf
     = \<lparr>con_z = [6], con_M_star = [-20], con_alpha = [0], con_phi_star = [1]\<rparr>"
  by (simp_all add: ex_pf_def)

lemma fcoll_pop_simps [simp]:
  "pf fcoll_pop = ex_pf" "phys fcoll_pop = ex_phys" "cosm fcoll_pop = ex_cosm"
  "halos fcoll_pop = ex_halos" "src fcoll_pop = ex_src" "lib fcoll_pop = ex_lib"
  "mAB_to_L fcoll_pop = (\<lambda>mag z. 1)" "zform fcoll_pop = 50" "dfcolldt fcoll_pop = (\<lambda>z. 1)"
  "c_yield_per_sfr fcoll_pop = None" "c_conversion_factors fcoll_pop = Map.empty"
  "c_constraints fcoll_pop = None" "c_eta fcoll_pop = None" "c_fstar_ham_pts fcoll_pop = None"
  "c_fstar_coeff fcoll_pop = None" "c_sfr_ham fcoll_pop = None" "c_sfrd_ham_tab fcoll_pop = None"
  by (simp_all add: fcoll_pop_def)

lemma ham_pop_simps [simp]:
  "pf ham_pop = ex_pf\<lparr>pop_model := ''ham''\<rparr>" "phys ham_pop = ex_phys" "cosm ham_pop = ex_cosm"
  "halos ham_pop = ex_halos" "src ham_pop = ex_src" "lib ham_pop = ex_lib"
  "mAB_to_L ham_pop = (\<lambda>mag z. 1)" "zform ham_pop = 50" "dfcolldt ham_pop = (\<lambda>z. 1)"
  "c_yield_per_sfr ham_pop = None" "c_conversion_factors ham_pop = Map.empty"
  "c_constraints ham_pop = None" "c_eta ham_pop = None" "c_fstar_ham_pts ham_pop = None"
  "c_fstar_coeff ham_pop = None" "c_sfr_ham ham_pop = None" "c_sfrd_ham_tab ham_pop = None"
  by (simp_all add: ham_pop_def)

lemma fcoll_pop_neg_simps [simp]:
  "pf fcoll_pop_neg = ex_pf" "phys fcoll_pop_neg = ex_phys" "cosm fcoll_pop_neg = ex_cosm"
  "zform fcoll_pop_neg = 50" "dfcolldt fcoll_pop_neg = (\<lambda>z. - 1)"
  by (simp_all add: fcoll_pop_neg_def)

lemma fcoll_pop_user_simps [simp]:
  "pf fcoll_pop_user = ex_pf\<lparr>pop_sfrd := SfrdFunction (\<lambda>z. - 1)\<rparr>"
  "phys fcoll_pop_user = ex_phys" "cosm fcoll_pop_user = ex_cosm"
  "zform fcoll_pop_user = 50" "dfcolldt fcoll_pop_user = (\<lambda>z. - 1)"
  by (simp_all add: fcoll_pop_user_def)

lemma ex_phys_simps [simp]:
  "s_per_yr ex_phys = 2" "g_per_msun ex_phys = 2" "erg_per_ev ex_phys = 1"
  "rhodot_cgs ex_phys = 1" "cm_per_mpc ex_phys = 1"
  by (simp_all add: ex_phys_def)

lemma ex_cosm_simps [simp]:
  "rho_m_z0 ex_cosm = 1" "rho_b_z0 ex_cosm = 1" "fbaryon ex_cosm = 1" "g_per_baryon ex_cosm = 1"
  by (simp_all add: ex_cosm_def)

lemma ex_src_simps [simp]:
  "Spectrum ex_src = (\<lambda>E. 1 / 10)" "AveragePhotonEnergy ex_src = (\<lambda>a b. (a + b) / 2)"
  by (simp_all add: ex_src_def)

lemma ex_halos_simps [simp]:
  "halos_z ex_halos = [6]" "halos_M ex_halos = [1, 10, 100]" "halos_logM ex_halos = [0, 1, 2]"
  "halos_dndm ex_halos = [[1, 1, 1]]" "VirialMass ex_halos = (\<lambda>T z m. 10)"
  "MF_ngtm ex_halos = (\<lambda>z. [2, 2, 2])"
  by (simp_all add: ex_halos_def)

lemma ex_lib_simps [simp]:
  "quad ex_lib = (\<lambda>f a b. (b - a) * f ((a + b) / 2))"
  "simps ex_lib = (\<lambda>y x. Inr (trapezoid y x))"
  "np_interp ex_lib = (\<lambda>x xp fp. Inr (interp_linear x (zip xp fp)))"
  "fsolve ex_lib = (\<lambda>f x0. Inr x0)"
  "curve_fit ex_lib = (\<lambda>f y p0. Inr p0)"
  "interp1d_cubic ex_lib = (\<lambda>xs ys x. Inr (interp_linear x (zip xs ys)))"
  "gammainc ex_lib = (\<lambda>a x. exp (- x))"
  by (simp_all add: ex_lib_def)

lemma is_fcoll_model_fcoll_pop: "is_fcoll_model fcoll_pop"
  by (simp add: is_fcoll_model_def string_defs)

lemma is_fcoll_model_fcoll_pop_neg: "is_fcoll_model fcoll_pop_neg"
  by (simp add: is_fcoll_model_def string_defs)


lemma is_ham_model_ham_pop: "is_ham_model ham_pop"
  by (simp add: is_ham_model_def string_defs)

lemma not_fcoll_ham_pop: "\<not> is_fcoll_model ham_pop"
  by (simp add: is_fcoll_model_def string_defs)

lemma not_ham_fcoll_pop: "\<not> is_ham_model fcoll_pop"
  by (simp add: is_ham_model_def string_defs)

subsection \<open>SFRD\<close>

text \<open>
  C5. For every population, whatever its model and whether or not the star-formation
  history is supplied by the user, \<open>SFRD(z)\<close> returns 0.0 at every redshift above the
  formation redshift, and leaves the object as it was.
\<close>

theorem SFRD_beyond_zform: "zform pop < z \<Longrightarrow> SFRD pop z = (Inr 0, pop)"
  by (simp add: SFRD_def)

theorem SFRD_beyond_zform_witness:
  "zform fcoll_pop_user < 100 \<and> SFRD fcoll_pop_user 100 = (Inr 0, fcoll_pop_user)"
proof -
  have h: "zform fcoll_pop_user < 100" by simp
  show ?thesis using h SFRD_beyond_zform [OF h] by simp
qed




text \<open>
  C6, as the claim states it, fails: with the efficiency 0.1 and a collapsed fraction that
  decreases at z = 10, the product is negative and \<open>SFRD(10)\<close> raises instead of
  returning it.
\<close>

theorem SFRD_fcoll_scenario_counterexample:
  "is_fcoll_model fcoll_pop_neg \<and> pop_sfrd (pf fcoll_pop_neg) = SfrdNone
   \<and> pop_fstar (pf fcoll_pop_neg) = FstarValue (1 / 10) \<and> 10 \<le> zform fcoll_pop_neg
   \<and> fst (SFRD fcoll_pop_neg 10)
        \<noteq> Inr (1 / 10 * rho_b_z0 (cosm fcoll_pop_neg) * dfcolldt fcoll_pop_neg 10)
   \<and> fst (SFRD fcoll_pop_neg 10) = Inl (NameError ''global name negative_SFRD is not defined'')"
  by (simp add: is_fcoll_model_fcoll_pop_neg SFRD_def sfrd_prop_def)

text \<open>
  C6, amended. For an fcoll population with no user-supplied star-formation history and
  the efficiency 0.1: if 10 is at or below the formation redshift and
  \<open>0.1 * rho_b_z0 * dfcolldt(10)\<close> is not negative, \<open>SFRD(10)\<close> returns exactly that
  product (no conversion factor is applied); and if 100 is above the formation redshift,
  \<open>SFRD(100)\<close> returns 0.0.
\<close>

theorem SFRD_fcoll_scenario:
  assumes "is_fcoll_model pop" and "pop_sfrd (pf pop) = SfrdNone"
      and "pop_fstar (pf pop) = FstarValue (1 / 10)"
  shows "(10 \<le> zform pop \<and> 0 \<le> 1 / 10 * rho_b_z0 (cosm pop) * dfcolldt pop 10
          \<longrightarrow> SFRD pop 10 = (Inr (1 / 10 * rho_b_z0 (cosm pop) * dfcolldt pop 10), pop))
         \<and> (zform pop < 100 \<longrightarrow> SFRD pop 100 = (Inr 0, pop))"
  using assms by (auto simp add: SFRD_def sfrd_prop_def Let_def)

theorem SFRD_fcoll_scenario_witness:
  "is_fcoll_model fcoll_pop \<and> pop_sfrd (pf fcoll_pop) = SfrdNone
   \<and> pop_fstar (pf fcoll_pop) = FstarValue (1 / 10)
   \<and> 10 \<le> zform fcoll_pop \<and> zform fcoll_pop < 100
   \<and> 0 \<le> 1 / 10 * rho_b_z0 (cosm fcoll_pop) * dfcolldt fcoll_pop 10
   \<and> SFRD fcoll_pop 10 = (Inr (1 / 10), fcoll_pop)
   \<and> SFRD fcoll_pop 100 = (Inr 0, fcoll_pop)"
proof -
  have b: "pop_sfrd (pf fcoll_pop) = SfrdNone"
    and c: "pop_fstar (pf fcoll_pop) = FstarValue (1 / 10)"
    and d: "10 \<le> zform fcoll_pop" "zform fcoll_pop < 100"
           "0 \<le> 1 / 10 * rho_b_z0 (cosm fcoll_pop) * dfcolldt fcoll_pop 10"
           "1 / 10 * rho_b_z0 (cosm fcoll_pop) * dfcolldt fcoll_pop 10 = 1 / 10"
    by simp_all
  from SFRD_fcoll_scenario [OF is_fcoll_model_fcoll_pop b c] d
  show ?thesis using is_fcoll_model_fcoll_pop b c by simp
qed

subsection \<open>normalize_sed\<close>



subsection \<open>eta\<close>

text \<open>
  C8. For every population whose model is not \<open>ham\<close>, reading the property \<open>eta\<close>
  raises the model-mismatch error, and the population is unchanged.
\<close>

theorem eta_outside_ham:
  "\<not> is_ham_model pop \<Longrightarrow> eta pop = (Inl (AttributeError ''eta is a HAM thing!''), pop)"
  by (simp add: eta_def)

theorem eta_outside_ham_witness:
  "\<not> is_ham_model fcoll_pop
   \<and> eta fcoll_pop = (Inl (AttributeError ''eta is a HAM thing!''), fcoll_pop)"
  using eta_outside_ham [OF not_ham_fcoll_pop] not_ham_fcoll_pop by simp

subsection \<open>The band conversion\<close>

lemma convert_band_None: "convert_band pop None None = (1, pop)"
  by (simp add: convert_band_def)

lemma convert_band_pf: "pf (snd (convert_band pop Emin Emax)) = pf pop"
  by (simp add: convert_band_def Let_def split: option.splits prod.splits)

lemma convert_band_src: "src (snd (convert_band pop Emin Emax)) = src pop"
  by (simp add: convert_band_def Let_def split: option.splits prod.splits)

text \<open>
  C3, as the claim states it, fails: asked for the native band by its bounds, the method
  integrates the spectrum over the band, and the integral of this spectrum over (10, 30) is 2.
\<close>

theorem convert_band_native_counterexample:
  "fst (convert_band fcoll_pop (Some (pop_Emin (pf fcoll_pop))) (Some (pop_Emax (pf fcoll_pop))))
     = 2
   \<and> fst (convert_band fcoll_pop (Some (pop_Emin (pf fcoll_pop))) (Some (pop_Emax (pf fcoll_pop))))
     \<noteq> 1"
  by (simp add: convert_band_def)

text \<open>
  C3, amended. With both bounds omitted, which selects the native band, the method returns
  exactly 1.0 and changes nothing. With a bound given, even one equal to the native bound,
  it returns the factor cached for the pair of bounds, or else the integral of the spectrum
  between them as \<open>quad\<close> computes it.
\<close>

theorem convert_band_factor:
  assumes "lo = (case Emin of Some e \<Rightarrow> e | None \<Rightarrow> pop_Emin (pf pop))"
      and "hi = (case Emax of Some e \<Rightarrow> e | None \<Rightarrow> pop_Emax (pf pop))"
  shows "convert_band pop None None = (1, pop)
         \<and> (Emin \<noteq> None \<or> Emax \<noteq> None
              \<longrightarrow> fst (convert_band pop Emin Emax)
                   = (case c_conversion_factors pop (lo, hi) of
                        Some factor \<Rightarrow> factor
                      | None \<Rightarrow> quad (lib pop) (Spectrum (src pop)) lo hi))"
  unfolding assms
  by (cases Emin; cases Emax) (simp_all add: convert_band_def Let_def split: option.splits)

theorem convert_band_factor_witness:
  "convert_band fcoll_pop None None = (1, fcoll_pop)
   \<and> fst (convert_band fcoll_pop (Some 10) None) = (30 - 10) * (1 / 10)"
proof -
  have a: "(10::real) = (case Some 10 of Some e \<Rightarrow> e | None \<Rightarrow> pop_Emin (pf fcoll_pop))"
    and b: "(30::real) = (case None of Some e \<Rightarrow> e | None \<Rightarrow> pop_Emax (pf fcoll_pop))"
    by simp_all
  from convert_band_factor [OF a b] show ?thesis by simp
qed

subsection \<open>Emissivity\<close>

lemma yield_per_sfr_pf: "pf (snd (yield_per_sfr pop)) = pf pop"
  by (simp add: yield_per_sfr_def split: option.splits sum.splits)

lemma SFRD_without_ham:
  assumes "is_fcoll_model pop \<or> pop_sfrd (pf pop) \<noteq> SfrdNone"
  shows "snd (SFRD pop z) = pop"
  using assms
  by (cases "pop_sfrd (pf pop)"; cases "pop_fstar (pf pop)")
     (auto simp add: SFRD_def sfrd_prop_def Let_def)

text \<open>
  C10. For every fcoll population, \<open>Emissivity(z)\<close> with \<open>E\<close>, \<open>Emin\<close> and \<open>Emax\<close>
  omitted returns exactly \<open>SFRD(z) * yield_per_sfr\<close>: the band factor is 1.0 and the
  escape fraction is not applied, whatever the native band is.
\<close>

theorem Emissivity_default_band:
  assumes "is_fcoll_model pop"
      and "SFRD pop z = (Inr sfrd, pop1)"
      and "yield_per_sfr pop1 = (Inr y, pop2)"
  shows "Emissivity pop z None None None = (Inr (sfrd * y), pop2)
         \<and> convert_band pop2 None None = (1, pop2)"
  using assms by (simp add: Emissivity_def convert_band_None py2_gt_def)

theorem Emissivity_default_band_witness:
  "is_fcoll_model fcoll_pop
   \<and> pop_Emin (pf fcoll_pop) < pop_Emin_xray (pf fcoll_pop) \<and> 13.6 < pop_Emax (pf fcoll_pop)
   \<and> pop_fesc (pf fcoll_pop) = 1 / 2
   \<and> SFRD fcoll_pop 10 = (Inr (1 / 10), fcoll_pop)
   \<and> yield_per_sfr fcoll_pop = (Inr 1, fcoll_pop\<lparr>c_yield_per_sfr := Some 1\<rparr>)
   \<and> Emissivity fcoll_pop 10 None None None
        = (Inr (1 / 10 * 1), fcoll_pop\<lparr>c_yield_per_sfr := Some 1\<rparr>)"
proof -
  have a: "SFRD fcoll_pop 10 = (Inr (1 / 10), fcoll_pop)"
    by (simp add: SFRD_def sfrd_prop_def is_fcoll_model_fcoll_pop)
  have b: "yield_per_sfr fcoll_pop = (Inr 1, fcoll_pop\<lparr>c_yield_per_sfr := Some 1\<rparr>)"
    by (simp add: yield_per_sfr_def normalize_sed_def fdiv_def string_defs)
  from Emissivity_default_band [OF is_fcoll_model_fcoll_pop a b]
  show ?thesis using is_fcoll_model_fcoll_pop a b by simp
qed

text \<open>
  C2, as the claim states it, fails: for an abundance-matching population without a
  supplied star-formation history, \<open>SFRD\<close> is defined (0.0 at z = 100) and \<open>Emissivity\<close>
  raises.
\<close>

theorem Emissivity_ham_counterexample:
  "is_ham_model ham_pop
   \<and> SFRD ham_pop 100 = (Inr 0, ham_pop)
   \<and> Emissivity ham_pop 100 None (Some 10) (Some 30)
        = (Inl (TypeError ''NotImplementedType object is not callable''), ham_pop)"
  by (simp add: is_ham_model_ham_pop not_fcoll_ham_pop SFRD_def Emissivity_def)

text \<open>
  C2, amended. For every population that is an fcoll population or has a star-formation
  history supplied (\<open>pop_sfrd\<close>), \<open>Emissivity(z, E=None, Emin, Emax)\<close> returns
  \<open>SFRD(z) * yield_per_sfr\<close> times the band-conversion factor of \<open>(Emin, Emax)\<close>, times
  \<open>pop_fesc\<close> exactly when \<open>Emax\<close> is given and above 13.6 eV and \<open>Emin\<close> is omitted or
  below \<open>pop_Emin_xray\<close>.
\<close>

theorem Emissivity_band:
  assumes "is_fcoll_model pop \<or> pop_sfrd (pf pop) \<noteq> SfrdNone"
      and "SFRD pop z = (Inr sfrd, pop1)"
      and "yield_per_sfr pop1 = (Inr y, pop2)"
      and "convert_band pop2 Emin Emax = (factor, pop3)"
  shows "Emissivity pop z None Emin Emax
           = (Inr (if (\<exists>b. Emax = Some b \<and> 13.6 < b)
                      \<and> (\<forall>a. Emin = Some a \<longrightarrow> a < pop_Emin_xray (pf pop))
                   then sfrd * y * factor * pop_fesc (pf pop)
                   else sfrd * y * factor), pop3)"
proof -
  have "pop1 = pop" using SFRD_without_ham [OF assms(1), of z] assms(2) by simp
  moreover have "pf pop2 = pf pop1" using yield_per_sfr_pf [of pop1] assms(3) by simp
  moreover have "pf pop3 = pf pop2" using convert_band_pf [of pop2 Emin Emax] assms(4) by simp
  moreover have "case pop_sfrd (pf pop) of SfrdNone \<Rightarrow> is_fcoll_model pop | _ \<Rightarrow> True"
    using assms(1) by (cases "pop_sfrd (pf pop)") simp_all
  ultimately show ?thesis
    using assms(2-4)
    by (cases Emin; cases Emax; cases "pop_sfrd (pf pop)")
       (simp_all add: Emissivity_def py2_gt_def py2_lt_def Let_def)
qed

theorem Emissivity_band_witness:
  "(is_fcoll_model fcoll_pop \<or> pop_sfrd (pf fcoll_pop) \<noteq> SfrdNone)
   \<and> Emissivity fcoll_pop 10 None (Some 10) (Some 30)
       = (Inr (1 / 10 * 1 * 2 * (1 / 2)),
          fcoll_pop\<lparr>c_yield_per_sfr := Some 1, c_conversion_factors := [(10, 30) \<mapsto> 2]\<rparr>)
   \<and> Emissivity fcoll_pop 10 None (Some 25) (Some 30)
       = (Inr (1 / 10 * 1 * (1 / 2)),
          fcoll_pop\<lparr>c_yield_per_sfr := Some 1, c_conversion_factors := [(25, 30) \<mapsto> 1 / 2]\<rparr>)"
proof -
  have m: "is_fcoll_model fcoll_pop \<or> pop_sfrd (pf fcoll_pop) \<noteq> SfrdNone"
    by (simp add: is_fcoll_model_fcoll_pop)
  have a: "SFRD fcoll_pop 10 = (Inr (1 / 10), fcoll_pop)"
    by (simp add: SFRD_def sfrd_prop_def is_fcoll_model_fcoll_pop)
  have b: "yield_per_sfr fcoll_pop = (Inr 1, fcoll_pop\<lparr>c_yield_per_sfr := Some 1\<rparr>)"
    by (simp add: yield_per_sfr_def normalize_sed_def fdiv_def string_defs)
  have c: "convert_band (fcoll_pop\<lparr>c_yield_per_sfr := Some 1\<rparr>) (Some 10) (Some 30)
             = (2, fcoll_pop\<lparr>c_yield_per_sfr := Some 1, c_conversion_factors := [(10, 30) \<mapsto> 2]\<rparr>)"
    by (simp add: convert_band_def Let_def)
  have d: "convert_band (fcoll_pop\<lparr>c_yield_per_sfr := Some 1\<rparr>) (Some 25) (Some 30)
             = (1 / 2,
                fcoll_pop\<lparr>c_yield_per_sfr := Some 1, c_conversion_factors := [(25, 30) \<mapsto> 1 / 2]\<rparr>)"
    by (simp add: convert_band_def Let_def)
  from Emissivity_band [OF m a b c] Emissivity_band [OF m a b d] m
  show ?thesis by simp
qed

subsection \<open>What the properties change\<close>




lemma Mmin_c_eta [simp]: "Mmin (pop\<lparr>c_eta := x\<rparr>) = Mmin pop"
  by (simp add: Mmin_def split: Mmin_par.splits)

lemma call_Macc_c_eta [simp]: "call_Macc (pop\<lparr>c_eta := x\<rparr>) = call_Macc pop"
  by (simp add: call_Macc_def Macc_def fun_eq_iff split: Macc_par.splits)

lemma schecter_integral_inf_c_eta [simp]:
  "schecter_integral_inf (pop\<lparr>c_eta := x\<rparr>) = schecter_integral_inf pop"
  by (simp add: schecter_integral_inf_def fun_eq_iff)

lemma to_min_c_eta [simp]: "to_min (pop\<lparr>c_eta := x\<rparr>) = to_min pop"
  by (auto simp add: to_min_def fun_eq_iff ebind_def Let_def split: sum.splits)

lemma Marr_c_eta [simp]: "Marr (pop\<lparr>c_eta := x\<rparr>) = Marr pop"
  by (simp add: Marr_def)





lemma ham_value_c_eta [simp]: "ham_value (pop\<lparr>c_eta := x\<rparr>) = ham_value pop"
  by (simp add: ham_value_def fun_eq_iff cong del: ebind_weak_cong)

subsection \<open>Arrays and \<open>enumerate\<close>\<close>



lemma length_set_pt [simp]: "length (set_pt pts i j v) = length pts"
  by (simp add: set_pt_def)

lemma length_row_set_pt [simp]: "length (set_pt pts i j v ! i') = length (pts ! i')"
  by (cases "i < length pts"; cases "i' = i") (simp_all add: set_pt_def list_update_beyond)



subsection \<open>The loops of the abundance match\<close>



lemma ham_mass_loop_shape:
  "ham_mass_loop pop kappa_UV i z alpha L_star phi_star jMs pts = (err, pts', pop')
   \<Longrightarrow> length pts' = length pts \<and> (\<forall>i'. length (pts' ! i') = length (pts ! i'))"
proof (induction jMs arbitrary: pop pts)
  case Nil
  then show ?case by simp
next
  case (Cons jM jMs)
  obtain j M where jM: "jM = (j, M)" by (cases jM)
  obtain r pop1 where hp: "ham_point pop kappa_UV i z alpha L_star phi_star M = (r, pop1)"
    by (cases "ham_point pop kappa_UV i z alpha L_star phi_star M")
  show ?case
  proof (cases r)
    case (Inl e)
    with Cons.prems jM hp show ?thesis by auto
  next
    case (Inr v)
    show ?thesis
    proof (cases v)
      case None
      with Inr Cons.prems jM hp have
        "ham_mass_loop pop1 kappa_UV i z alpha L_star phi_star jMs pts = (err, pts', pop')"
        by simp
      from Cons.IH [OF this] show ?thesis .
    next
      case (Some fast)
      with Inr Cons.prems jM hp have
        "ham_mass_loop pop1 kappa_UV i z alpha L_star phi_star jMs (set_pt pts i j fast)
           = (err, pts', pop')"
        by simp
      from Cons.IH [OF this] show ?thesis by simp
    qed
  qed
qed



text \<open>The same four facts for the loop over the redshifts.\<close>

lemma ham_z_loop_step:
  assumes "ham_z_loop pop kappa_UV con Ms ((i, z) # izs) pts = (err, pts', pop')"
  shows "(err \<noteq> None \<and> pts' = pts \<and> pop' = pop)
         \<or> (\<exists>alpha L_star phi_star err1 pts1 pop1.
               py_index (con_alpha con) (int i) = Inr alpha
               \<and> py_index (con_L_star con) (int i) = Inr L_star
               \<and> py_index (con_phi_star con) (int i) = Inr phi_star
               \<and> ham_mass_loop pop kappa_UV i z alpha L_star phi_star (enumerate_py Ms) pts
                    = (err1, pts1, pop1)
               \<and> (case err1 of
                     Some e \<Rightarrow> err = Some e \<and> pts' = pts1 \<and> pop' = pop1
                   | None \<Rightarrow> ham_z_loop pop1 kappa_UV con Ms izs pts1 = (err, pts', pop')))"
proof (cases "py_index (con_alpha con) (int i)")
  case (Inl e)
  with assms show ?thesis by auto
next
  case a: (Inr alpha)
  show ?thesis
  proof (cases "py_index (con_L_star con) (int i)")
    case (Inl e)
    with assms a show ?thesis by auto
  next
    case l: (Inr L_star)
    show ?thesis
    proof (cases "py_index (con_phi_star con) (int i)")
      case (Inl e)
      with assms a l show ?thesis by auto
    next
      case p: (Inr phi_star)
      obtain err1 pts1 pop1 where
        m: "ham_mass_loop pop kappa_UV i z alpha L_star phi_star (enumerate_py Ms) pts
              = (err1, pts1, pop1)"
        by (cases "ham_mass_loop pop kappa_UV i z alpha L_star phi_star (enumerate_py Ms) pts")
      with assms a l p show ?thesis by (cases err1) auto
    qed
  qed
qed



lemma ham_z_loop_shape:
  "ham_z_loop pop kappa_UV con Ms izs pts = (err, pts', pop')
   \<Longrightarrow> length pts' = length pts \<and> (\<forall>i'. length (pts' ! i') = length (pts ! i'))"
proof (induction izs arbitrary: pop pts)
  case Nil
  then show ?case by simp
next
  case (Cons iz izs)
  obtain i z where iz: "iz = (i, z)" by (cases iz)
  from ham_z_loop_step [OF Cons.prems(1) [unfolded iz]]
  show ?case
  proof (elim disjE exE conjE)
    assume "pts' = pts"
    then show ?thesis by simp
  next
    fix alpha L_star phi_star err1 pts1 pop1
    assume m: "ham_mass_loop pop kappa_UV i z alpha L_star phi_star (enumerate_py Ms) pts
                 = (err1, pts1, pop1)"
      and c: "case err1 of
                Some e \<Rightarrow> err = Some e \<and> pts' = pts1 \<and> pop' = pop1
              | None \<Rightarrow> ham_z_loop pop1 kappa_UV con Ms izs pts1 = (err, pts', pop')"
    from ham_mass_loop_shape [OF m] have
      s: "length pts1 = length pts \<and> (\<forall>i'. length (pts1 ! i') = length (pts ! i'))" .
    show ?thesis
    proof (cases err1)
      case None
      with c have "ham_z_loop pop1 kappa_UV con Ms izs pts1 = (err, pts', pop')" by simp
      from Cons.IH [OF this] s show ?thesis by simp
    next
      case (Some e)
      with c s show ?thesis by auto
    qed
  qed
qed



subsection \<open>The construction of the efficiency grid\<close>













subsection \<open>The abundance match of the example population\<close>

lemma ln10_nonzero [simp]: "ln (10::real) \<noteq> 0"
  by simp



lemma Mmin_ham_pop: "Mmin ham_pop = Array [10]"
  by (simp add: Mmin_def)


lemma eta_body_ham_pop: "eta_body ham_pop 0 6 = Inr (1 / ln 10)"
  by (simp add: eta_body_def Mmin_ham_pop getitem_def py_index_def np_log10_def fdiv_def
      call_Macc_array_def Macc_def np_argmin_def py_slice_from_def py_slice_def slice_bound_def
      np_multiply_def np_divide_def Let_def)





lemma ham_pop_built_simps [simp]:
  "c_fstar_ham_pts ham_pop_built = Some [[0, 1 / 1000]]"
  "c_constraints ham_pop_built = Some ex_con"
  "c_yield_per_sfr ham_pop_built = Some 1"
  "c_eta ham_pop_built = Some [1 / ln 10]"
  by (simp_all add: ham_pop_built_def)

lemma ex_con_simps [simp]:
  "con_z ex_con = [6]" "con_alpha ex_con = [0]" "con_phi_star ex_con = [1]"
  "con_L_star ex_con = [1]"
  by (simp_all add: ex_con_def)





end
